theory Spec2Isabelle
  imports Main "HOL-Library.Word"
begin

unbundle bit_operations_syntax

section \<open>util/sock.h: the socket address value type\<close>

subsection \<open>Platform constants and C library functions\<close>

text \<open>
  The address families come from the system's socket headers; \<open>AF_UNIX\<close> is 1 and
  \<open>AF_INET\<close> is 2 on every platform the code builds on. The member \<open>family\<close> of
  \<open>SockAddr\<close> is a C \<open>int\<close> and is only ever compared, so it is an \<open>int\<close> here.
\<close>

definition AF_UNIX :: int where
  "AF_UNIX = 1"

definition AF_INET :: int where
  "AF_INET = 2"

type_synonym in_addr_t = "32 word"
type_synonym in_port_t = "16 word"

definition INADDR_ANY :: in_addr_t where
  "INADDR_ANY = 0"

definition INADDR_LOOPBACK :: in_addr_t where
  "INADDR_LOOPBACK = 0x7f000001"

definition INADDR_NONE :: in_addr_t where
  "INADDR_NONE = 0xffffffff"

text \<open>
  Sizes of the system structures (Linux ABI): \<open>sizeof(sockaddr_in)\<close> is 16,
  \<open>sizeof(sun_path)\<close> is 108 and \<open>sizeof(sockaddr_un)\<close> is 110.
\<close>

definition sizeof_sockaddr_in :: nat where
  "sizeof_sockaddr_in = 16"

definition sizeof_sun_path :: nat where
  "sizeof_sun_path = 108"

definition sizeof_sockaddr_un :: nat where
  "sizeof_sockaddr_un = 2 + sizeof_sun_path"

text \<open>
  Byte order. The code is written for little-endian hosts: \<open>isLocalHost\<close> compares the
  stored address with the literal \<open>0x100007f\<close>, which is 127.0.0.1 in network byte
  order as a little-endian host reads it. So \<open>htons\<close> and \<open>htonl\<close> swap bytes.
\<close>

definition htons :: "16 word \<Rightarrow> 16 word" where
  "htons x = push_bit 8 (x AND 0xff) OR drop_bit 8 x"

definition ntohs :: "16 word \<Rightarrow> 16 word" where
  "ntohs x = htons x"

definition htonl :: "32 word \<Rightarrow> 32 word" where
  "htonl x =
     push_bit 24 (x AND 0xff) OR push_bit 8 (x AND 0xff00) OR
     drop_bit 8 (x AND 0xff0000) OR drop_bit 24 x"

text \<open>
  C strings. A C-string read starts at an address and goes on to the first NUL byte; it
  does not know where the array it started in ends. The functions below take the list
  of the bytes that lie from the start address up to the end of the object that holds
  the array, so that a read which leaves an array without terminator goes on through
  the members behind it. \<open>c_str\<close> is the string such a read sees.
\<close>

definition NUL :: char where
  "NUL = CHR 0x00"

definition c_str :: "string \<Rightarrow> string" where
  "c_str buf = takeWhile (\<lambda>c. c \<noteq> NUL) buf"

text \<open>
  \<open>strcmp\<close> walks both byte sequences while the bytes agree and are not NUL, and
  compares the first bytes that differ as unsigned values. Only the sign of the result
  is specified by C; the model returns the difference of those bytes. The end of a list
  is the end of the object; it is read as a NUL (see \<open>sun_path_mem\<close> below for why a
  read that starts in \<open>sun_path\<close> ends before it).
\<close>

fun strcmp :: "string \<Rightarrow> string \<Rightarrow> int" where
  "strcmp [] [] = 0"
| "strcmp [] (y # ys) = 0 - of_char y"
| "strcmp (x # xs) [] = of_char x"
| "strcmp (x # xs) (y # ys) =
     (if x = y then (if x = NUL then 0 else strcmp xs ys) else of_char x - of_char y)"

text \<open>
  \<open>strncpy(dest, src, n)\<close> writes exactly \<open>n\<close> bytes to \<open>dest\<close>: the string \<open>src\<close>
  followed by NUL bytes when \<open>src\<close> is shorter than \<open>n\<close>, and otherwise the first
  \<open>n\<close> bytes of \<open>src\<close> with no terminator. The model returns the new contents of
  \<open>dest\<close>.
\<close>

definition strncpy :: "string \<Rightarrow> nat \<Rightarrow> string" where
  "strncpy src n = take n (c_str src @ replicate n NUL)"

text \<open>
  \<open>inet_addr\<close> is a C library function: it reads an address in dotted notation and
  returns it in network byte order, or \<open>INADDR_NONE\<close> when the text is not an address.
  The definition below is a reference for the four-part decimal form \<open>a.b.c.d\<close> only
  (it yields \<open>INADDR_NONE\<close> for any other text, where the library also reads octal and
  hexadecimal parts and shorter forms). It serves for the literal \<open>127.0.0.1\<close> that
  \<open>localhost()\<close> passes, and for the sample addresses. The constructor, which passes
  whatever the resolver returned, takes the library function as a parameter.
\<close>

definition is_digit :: "char \<Rightarrow> bool" where
  "is_digit c = (48 \<le> (of_char c :: nat) \<and> (of_char c :: nat) \<le> 57)"

fun dec_value :: "nat \<Rightarrow> string \<Rightarrow> nat" where
  "dec_value acc [] = acc"
| "dec_value acc (c # cs) = dec_value (10 * acc + (of_char c - 48)) cs"

definition parse_octet :: "string \<Rightarrow> nat option" where
  "parse_octet s =
     (if s \<noteq> [] \<and> length s \<le> 3 \<and> list_all is_digit s \<and> dec_value 0 s \<le> 255
      then Some (dec_value 0 s) else None)"

fun split_dots :: "string \<Rightarrow> string \<Rightarrow> string list" where
  "split_dots cur [] = [rev cur]"
| "split_dots cur (c # cs) =
     (if c = CHR ''.'' then rev cur # split_dots [] cs else split_dots (c # cur) cs)"

fun parse_octets :: "string list \<Rightarrow> nat list option" where
  "parse_octets [] = Some []"
| "parse_octets (p # ps) =
     (case parse_octet p of
        None \<Rightarrow> None
      | Some v \<Rightarrow> (case parse_octets ps of None \<Rightarrow> None | Some vs \<Rightarrow> Some (v # vs)))"

fun quad_value :: "nat list \<Rightarrow> 32 word option" where
  "quad_value [a, b, c, d] = Some (word_of_nat (a * 2 ^ 24 + b * 2 ^ 16 + c * 2 ^ 8 + d))"
| "quad_value _ = None"

definition inet_addr :: "string \<Rightarrow> in_addr_t" where
  "inet_addr cp =
     (case parse_octets (split_dots [] cp) of
        None \<Rightarrow> INADDR_NONE
      | Some vs \<Rightarrow> (case quad_value vs of None \<Rightarrow> INADDR_NONE | Some h \<Rightarrow> htonl h))"

subsection \<open>struct SockAddr\<close>

record sockaddr_in =
  sin_family :: int
  sin_port :: in_port_t
  s_addr :: in_addr_t
  sin_zero :: "8 word list"

record sockaddr_un =
  sun_family :: int
  sun_path :: string

text \<open>
  The members of \<open>SockAddr\<close> in the order of the declaration. \<open>su\<close> is 110 bytes long
  and \<open>addressSize\<close>, a 32-bit \<open>socklen_t\<close>, is aligned to 4 bytes, so the compiler
  leaves two bytes between them: \<open>su\<close> is at offset 20, the gap at 130 and
  \<open>addressSize\<close> at 132. The gap is not a member of the source; it is the field
  \<open>su_pad\<close> here, since a read that leaves \<open>sun_path\<close> passes through it.
\<close>

record SockAddr =
  family :: int
  si :: sockaddr_in
  su :: sockaddr_un
  su_pad :: string
  addressSize :: "32 word"

text \<open>The four bytes of a 32-bit value in memory, least significant first.\<close>

definition le_bytes :: "32 word \<Rightarrow> string" where
  "le_bytes w =
     [char_of (unat w), char_of (unat w div 2 ^ 8),
      char_of (unat w div 2 ^ 16), char_of (unat w div 2 ^ 24)]"

text \<open>
  The bytes of the object from \<open>su.sun_path\<close> to its end: the array, the gap and
  \<open>addressSize\<close>. Every constructor stores 16 or 110 in \<open>addressSize\<close>, whose upper
  bytes are 0, so a C-string read that starts at \<open>su.sun_path\<close> of a constructed
  object meets a NUL inside the object.
\<close>

definition sun_path_mem :: "SockAddr \<Rightarrow> string" where
  "sun_path_mem a = sun_path (su a) @ su_pad a @ le_bytes (addressSize a)"

text \<open>The string that the code reads at \<open>su.sun_path\<close> (in \<open>toString\<close> and in the
  comparisons).\<close>

definition sun_path_str :: "SockAddr \<Rightarrow> string" where
  "sun_path_str a = c_str (sun_path_mem a)"

text \<open>
  A C++ constructor runs on uninitialised storage and assigns some members. Each
  constructor below takes the prior contents of the object as its last argument and
  returns the object with the assigned members updated; the others keep whatever the
  storage held.
\<close>

definition zeroed_sockaddr_in :: sockaddr_in where
  "zeroed_sockaddr_in =
     \<lparr>sin_family = 0, sin_port = 0, s_addr = 0, sin_zero = replicate 8 0\<rparr>"

text \<open>\<open>SockAddr()\<close>\<close>

definition SockAddr_default :: "SockAddr \<Rightarrow> SockAddr" where
  "SockAddr_default this =
     this\<lparr>family := AF_INET, addressSize := of_nat sizeof_sockaddr_in,
          si := zeroed_sockaddr_in\<rparr>"

text \<open>\<open>SockAddr(int sourcePort)\<close>, the listener side. \<open>htons\<close> takes a 16-bit
  argument, so the \<open>int\<close> is converted to 16 bits.\<close>

definition SockAddr_port :: "int \<Rightarrow> SockAddr \<Rightarrow> SockAddr" where
  "SockAddr_port sourcePort this =
     this\<lparr>family := AF_INET,
          si := (si this)\<lparr>sin_zero := replicate 8 0,
                          sin_family := AF_INET,
                          sin_port := htons (word_of_int sourcePort),
                          s_addr := htonl INADDR_ANY\<rparr>,
          addressSize := of_nat sizeof_sockaddr_in\<rparr>"

text \<open>\<open>SockAddr(const char *iporhost, int port)\<close>. The resolver \<open>hostbyname\<close> is
  declared in this header and defined elsewhere (it returns the address of a host as
  text, or the empty string on failure); it is a parameter. So is the library function
  \<open>inet_addr\<close>, here \<open>inet_addr_fn\<close>, which is given \<open>ip.c_str()\<close>.\<close>

definition SockAddr_host ::
  "(string \<Rightarrow> string) \<Rightarrow> (string \<Rightarrow> in_addr_t) \<Rightarrow> string \<Rightarrow> int \<Rightarrow> SockAddr
     \<Rightarrow> SockAddr" where
  "SockAddr_host hostbyname inet_addr_fn iporhost port this =
     (if port = 0 then
        this\<lparr>family := AF_UNIX,
             su := (su this)\<lparr>sun_family := AF_UNIX,
                             sun_path := strncpy iporhost sizeof_sun_path\<rparr>,
             addressSize := of_nat sizeof_sockaddr_un\<rparr>
      else
        (let ip = hostbyname iporhost in
         this\<lparr>family := AF_INET,
              si := (si this)\<lparr>sin_zero := replicate 8 0,
                              sin_family := AF_INET,
                              sin_port := htons (word_of_int port),
                              s_addr := inet_addr_fn (c_str ip)\<rparr>,
              addressSize := of_nat sizeof_sockaddr_in\<rparr>))"

definition isLocalHost :: "SockAddr \<Rightarrow> bool" where
  "isLocalHost a =
     (if family a = AF_UNIX then True else s_addr (si a) = 0x100007f)"

definition getPort :: "SockAddr \<Rightarrow> 32 word" where
  "getPort a = (if family a = AF_UNIX then 0 else ucast (sin_port (si a)))"

definition localhost :: "SockAddr \<Rightarrow> bool" where
  "localhost a =
     (if family a = AF_UNIX then True else inet_addr ''127.0.0.1'' = s_addr (si a))"

text \<open>\<open>operator==\<close>\<close>

definition SockAddr_eq :: "SockAddr \<Rightarrow> SockAddr \<Rightarrow> bool" where
  "SockAddr_eq a r =
     (if family a \<noteq> family r then False
      else if family a = AF_UNIX then strcmp (sun_path_mem a) (sun_path_mem r) = 0
      else s_addr (si a) = s_addr (si r) \<and> sin_port (si a) = sin_port (si r))"

text \<open>\<open>operator!=\<close>\<close>

definition SockAddr_ne :: "SockAddr \<Rightarrow> SockAddr \<Rightarrow> bool" where
  "SockAddr_ne a r = (\<not> SockAddr_eq a r)"

text \<open>\<open>operator<\<close>\<close>

definition SockAddr_less :: "SockAddr \<Rightarrow> SockAddr \<Rightarrow> bool" where
  "SockAddr_less a r =
     (if family a < family r then True
      else if family a > family r then False
      else if family a = AF_UNIX then strcmp (sun_path_mem a) (sun_path_mem r) < 0
      else if sin_port (si a) \<ge> sin_port (si r) then False
      else s_addr (si a) < s_addr (si r))"

text \<open>\<open>UDPConnection::mtu\<close>\<close>

definition mtu :: "SockAddr \<Rightarrow> int" where
  "mtu sa = (if isLocalHost sa then 16384 else 1480)"

text \<open>Storage filled with zero bytes, for running the constructors on.\<close>

definition zeroed_SockAddr :: SockAddr where
  "zeroed_SockAddr =
     \<lparr>family = 0, si = zeroed_sockaddr_in,
      su = \<lparr>sun_family = 0, sun_path = replicate sizeof_sun_path NUL\<rparr>,
      su_pad = [NUL, NUL],
      addressSize = 0\<rparr>"

text \<open>Storage that was used before: every byte is \<open>0x42\<close>, the letter B.\<close>

definition used_SockAddr :: SockAddr where
  "used_SockAddr =
     \<lparr>family = 0x42424242,
      si = \<lparr>sin_family = 0x4242, sin_port = 0x4242, s_addr = 0x42424242,
            sin_zero = replicate 8 0x42\<rparr>,
      su = \<lparr>sun_family = 0x4242, sun_path = replicate sizeof_sun_path CHR ''B''\<rparr>,
      su_pad = ''BB'',
      addressSize = 0x42424242\<rparr>"

section \<open>client/dbclient.h: cursors and the paired connection\<close>

subsection \<open>Query options\<close>

text \<open>The enumerators are \<open>int\<close> constants, combined into the 32-bit \<open>opts\<close> word.\<close>

definition Option_CursorTailable :: "32 word" where
  "Option_CursorTailable = 2"

definition Option_SlaveOk :: "32 word" where
  "Option_SlaveOk = 4"

definition Option_ALLMASK :: "32 word" where
  "Option_ALLMASK = 6"

subsection \<open>Documents\<close>

text \<open>
  Modelled from the spec: the document classes \<open>JSObj\<close> and \<open>Element\<close> are declared in
  db/jsobj.h, which is not among the sources. A document is a sequence of named fields
  and a server-reported error is a document whose field is named \<open>$err\<close>. The value of
  a field is kept as text. \<open>firstElement\<close> of a document without fields is the
  end-of-object element, whose name is empty.
\<close>

datatype Element = Element (fieldName: string) (fieldValue: string)

type_synonym JSObj = "Element list"

definition firstElement :: "JSObj \<Rightarrow> Element" where
  "firstElement obj = (case obj of [] \<Rightarrow> Element [] [] | e # es \<Rightarrow> e)"

subsection \<open>class DBClientCursor\<close>

text \<open>
  The members of the cursor that hold values. The members that refer to objects of
  classes declared elsewhere (\<open>conn\<close>, \<open>p\<close>, \<open>data\<close>, \<open>m\<close>) are not read by the
  functions defined in this header and are left out.
\<close>

record DBClientCursor =
  cursorId :: "64 word"
  nReturned :: "32 word"
  pos :: "32 word"
  opts :: "32 word"
  ns :: string
  nToReturn :: "32 word"

text \<open>
  How a call of a member function ends: it returns a value, an assertion fails, or
  control reaches the end of a function that has a result type without a \<open>return\<close>
  statement, so that no value is returned.
\<close>

datatype 'a outcome = Returned 'a | AssertionFailure | NoValueReturned

text \<open>
  A \<open>const\<close> member function reads the object and cannot assign its members: it is a
  function of the object's state, and a call leaves the object as it was.
\<close>

definition call_const :: "('s \<Rightarrow> 'r) \<Rightarrow> 's \<Rightarrow> 'r \<times> 's" where
  "call_const f this = (f this, this)"

text \<open>
  \<open>nextSafe\<close>. \<open>next()\<close> is declared in this header and defined elsewhere: it is the
  parameter \<open>next_doc\<close>, which takes the cursor and gives the document and the cursor
  after the call. The body of \<open>nextSafe\<close> calls it, takes the first element, asserts
  that its name is not \<open>$err\<close>, and ends without a \<open>return\<close> statement.
\<close>

definition nextSafe ::
  "(DBClientCursor \<Rightarrow> JSObj \<times> DBClientCursor) \<Rightarrow> DBClientCursor
     \<Rightarrow> JSObj outcome \<times> DBClientCursor" where
  "nextSafe next_doc this =
     (let (obj, this') = next_doc this;
          e = firstElement obj
      in if \<not> (strcmp (fieldName e) ''$err'' \<noteq> 0) then (AssertionFailure, this')
         else (NoValueReturned, this'))"

definition isDead :: "DBClientCursor \<Rightarrow> bool" where
  "isDead this = (cursorId this = 0)"

definition tailable :: "DBClientCursor \<Rightarrow> bool" where
  "tailable this = ((opts this AND Option_CursorTailable) \<noteq> 0)"

subsection \<open>class DBClientConnection and class DBClientPaired\<close>

text \<open>The value members of a connection (the pointers to its port, its server address
  and its pair are left out, as for the cursor).\<close>

record DBClientConnection =
  failed :: bool
  autoReconnect :: bool
  lastReconnectTry :: int
  serverAddress :: string

text \<open>\<open>DBClientConnection(bool _autoReconnect = false, DBClientPaired *cp = 0)\<close>\<close>

definition DBClientConnection_init :: "bool \<Rightarrow> DBClientConnection \<Rightarrow> DBClientConnection" where
  "DBClientConnection_init autoReconnect' this =
     this\<lparr>failed := False, autoReconnect := autoReconnect', lastReconnectTry := 0\<rparr>"

definition isFailed :: "DBClientConnection \<Rightarrow> bool" where
  "isFailed this = failed this"

text \<open>\<open>enum State { NotSetL=0, NotSetR=1, Left, Right }\<close>\<close>

datatype State = NotSetL | NotSetR | Left | Right

record DBClientPaired =
  left :: DBClientConnection
  right :: DBClientConnection
  master :: State

text \<open>
  \<open>isntMaster\<close>. Its body is the expression statement
  \<^verbatim>\<open>master == Left ? NotSetR : NotSetL;\<close>
  which computes a state and discards it: nothing is assigned.
\<close>

definition isntMaster :: "DBClientPaired \<Rightarrow> DBClientPaired" where
  "isntMaster this =
     (let discarded = (if master this = Left then NotSetR else NotSetL) in this)"

text \<open>Sample objects.\<close>

definition sample_connection :: DBClientConnection where
  "sample_connection =
     \<lparr>failed = False, autoReconnect = True, lastReconnectTry = 0,
      serverAddress = ''db1.example.com''\<rparr>"

definition sample_pair :: "State \<Rightarrow> DBClientPaired" where
  "sample_pair st = \<lparr>left = sample_connection, right = sample_connection, master = st\<rparr>"

definition sample_cursor :: "64 word \<Rightarrow> 32 word \<Rightarrow> DBClientCursor" where
  "sample_cursor cid options =
     \<lparr>cursorId = cid, nReturned = 2, pos = 0, opts = options, ns = ''test.people'',
      nToReturn = 0\<rparr>"

text \<open>A \<open>next()\<close> that hands out a fixed document and advances the position.\<close>

definition next_fixed :: "JSObj \<Rightarrow> DBClientCursor \<Rightarrow> JSObj \<times> DBClientCursor" where
  "next_fixed obj this = (obj, this\<lparr>pos := pos this + 1\<rparr>)"

section \<open>Facts about the C library model\<close>

lemma of_char_eq_0_iff: "(of_char c :: int) = 0 \<longleftrightarrow> c = NUL"
proof -
  have z: "(of_char NUL :: int) = 0" by (simp add: NUL_def)
  have "(of_char c :: int) = of_char NUL \<longleftrightarrow> c = NUL" by (rule of_char_eq_iff)
  then show ?thesis by (simp only: z)
qed

lemma strcmp_eq_0_iff: "strcmp a b = 0 \<longleftrightarrow> c_str a = c_str b"
  by (induction a b rule: strcmp.induct) (auto simp: c_str_def of_char_eq_0_iff)

lemma strcmp_same: "strcmp a a = 0"
  by (simp add: strcmp_eq_0_iff)

lemma of_char_nonneg: "0 \<le> (of_char c :: int)"
proof -
  have "(of_char c :: int) = int (of_char c)" by (simp add: of_nat_of_char)
  then show ?thesis by simp
qed

lemma strcmp_swap: "strcmp b a = - strcmp a b"
  by (induction a b rule: strcmp.induct) auto

lemma strcmp_Cons_Cons_less:
  "strcmp (x # xs) (y # ys) < 0 \<longleftrightarrow>
     (of_char x :: int) < of_char y \<or> (x = y \<and> x \<noteq> NUL \<and> strcmp xs ys < 0)"
  by auto

lemma strcmp_Nil_less: "strcmp [] b < 0 \<longleftrightarrow> (\<exists>y ys. b = y # ys \<and> y \<noteq> NUL)"
proof (cases b)
  case Nil
  then show ?thesis by simp
next
  case (Cons y ys)
  then show ?thesis using of_char_nonneg [of y] of_char_eq_0_iff [of y] by auto
qed

lemma strcmp_less_Nil: "\<not> strcmp a [] < 0"
  by (cases a) (simp_all add: not_less of_char_nonneg)

lemma strcmp_trans: "strcmp a b < 0 \<Longrightarrow> strcmp b c < 0 \<Longrightarrow> strcmp a c < 0"
proof (induction a b arbitrary: c rule: strcmp.induct)
  case 1
  then show ?case by simp
next
  case (2 y ys)
  then obtain z zs where c: "c = z # zs"
    using strcmp_less_Nil [of "y # ys"] by (cases c) auto
  from "2.prems"(1) have y: "y \<noteq> NUL" using of_char_eq_0_iff [of y] by auto
  from "2.prems"(2) c have "(of_char y :: int) < of_char z \<or> y = z"
    by (simp only: strcmp_Cons_Cons_less) blast
  with y have "z \<noteq> NUL" using of_char_nonneg [of y] of_char_eq_0_iff [of z] by auto
  with c show ?case by (simp only: strcmp_Nil_less) blast
next
  case (3 x xs)
  then show ?case using strcmp_less_Nil [of "x # xs"] by blast
next
  case (4 x xs y ys)
  then obtain z zs where c: "c = z # zs"
    using strcmp_less_Nil [of "y # ys"] by (cases c) auto
  from "4.prems"(1)
  have ab: "(of_char x :: int) < of_char y \<or> (x = y \<and> x \<noteq> NUL \<and> strcmp xs ys < 0)"
    by (simp only: strcmp_Cons_Cons_less)
  from "4.prems"(2) c
  have bc: "(of_char y :: int) < of_char z \<or> (y = z \<and> y \<noteq> NUL \<and> strcmp ys zs < 0)"
    by (simp only: strcmp_Cons_Cons_less)
  have "(of_char x :: int) < of_char z \<or> (x = z \<and> x \<noteq> NUL \<and> strcmp xs zs < 0)"
  proof (cases "x = y \<and> y = z")
    case True
    with ab bc have "x \<noteq> NUL" "strcmp xs ys < 0" "strcmp ys zs < 0" by auto
    with True "4.IH" [of zs] show ?thesis by simp
  next
    case False
    with ab bc show ?thesis by auto
  qed
  with c show ?case by (simp only: strcmp_Cons_Cons_less)
qed

lemma c_str_no_NUL: "x \<in> set (c_str buf) \<Longrightarrow> x \<noteq> NUL"
  by (auto simp: c_str_def dest: set_takeWhileD)

lemma length_strncpy: "length (strncpy src n) = n"
  by (simp add: strncpy_def)

lemma c_str_replicate_a: "c_str (replicate k CHR ''a'') = replicate k CHR ''a''"
  by (simp add: c_str_def NUL_def)

lemma c_str_append_NUL: "NUL \<in> set xs \<Longrightarrow> c_str (xs @ ys) = c_str xs"
  by (simp add: c_str_def takeWhile_append1)

lemma c_str_replicate_a_append:
  "c_str (replicate k CHR ''a'' @ ys) = replicate k CHR ''a'' @ c_str ys"
  by (induction k) (simp_all add: c_str_def NUL_def)

lemma c_str_samples:
  "c_str ''127.0.0.1'' = ''127.0.0.1''"
  "c_str ''10.0.0.1'' = ''10.0.0.1''"
  "c_str ''10.0.0.2'' = ''10.0.0.2''"
  "c_str ''/tmp/mongo.sock'' = ''/tmp/mongo.sock''"
  "c_str [CHR ''B'', CHR ''B'', CHR ''n'', NUL, NUL, NUL] = ''BBn''"
  by (simp_all add: c_str_def NUL_def)

lemma strncpy_replicate_a:
  "k \<ge> n \<Longrightarrow> strncpy (replicate k CHR ''a'') n = replicate n CHR ''a''"
  by (simp add: strncpy_def c_str_replicate_a min_def)

lemma strcmp_replicate_a:
  "strcmp (replicate k CHR ''a'' @ xs) (replicate k CHR ''a'' @ ys) = strcmp xs ys"
  by (induction k) (simp_all add: NUL_def)

lemma strncpy_short:
  "length (c_str src) < n \<Longrightarrow>
     strncpy src n = c_str src @ NUL # replicate (n - length (c_str src) - 1) NUL"
proof -
  assume l: "length (c_str src) < n"
  then obtain m where m: "n - length (c_str src) = Suc m"
    by (cases "n - length (c_str src)") auto
  with l show ?thesis by (simp add: strncpy_def)
qed

lemma c_str_strncpy_short_append:
  "length (c_str src) < n \<Longrightarrow> c_str (strncpy src n @ ys) = c_str src"
proof -
  assume l: "length (c_str src) < n"
  have "c_str (c_str src @ (NUL # replicate (n - length (c_str src) - 1) NUL @ ys)) = c_str src"
    unfolding c_str_def [of "c_str src @ _"]
    by (simp add: takeWhile_append2 c_str_no_NUL)
  with l show ?thesis by (simp add: strncpy_short)
qed

lemma c_str_strncpy_short: "length (c_str src) < n \<Longrightarrow> c_str (strncpy src n) = c_str src"
  using c_str_strncpy_short_append [of src n "[]"] by simp

lemma le_bytes_110: "le_bytes 110 = [CHR ''n'', NUL, NUL, NUL]"
  by (simp add: le_bytes_def NUL_def char_of_def bit_Suc_0_iff)

lemma le_bytes_16: "le_bytes 16 = [CHR 0x10, NUL, NUL, NUL]"
  by (simp add: le_bytes_def NUL_def char_of_def bit_Suc_0_iff)

text \<open>A C-string read that starts at \<open>sun_path\<close> of a constructed object ends inside
  the object.\<close>

lemma sun_path_mem_terminated:
  "NUL \<in> set (sun_path_mem (SockAddr_default this))"
  "NUL \<in> set (sun_path_mem (SockAddr_port sourcePort this))"
  "NUL \<in> set (sun_path_mem (SockAddr_host hostbyname inet_addr_fn iporhost port this))"
  by (simp_all add: sun_path_mem_def SockAddr_default_def SockAddr_port_def SockAddr_host_def
      sizeof_sockaddr_in_def sizeof_sockaddr_un_def sizeof_sun_path_def le_bytes_110 le_bytes_16)

lemma low_byte_16: "(x :: 16 word) AND 0xff = take_bit 8 x"
proof -
  have "(0xff :: 16 word) = mask 8" by (simp add: mask_eq_exp_minus_1)
  then show ?thesis by (simp add: take_bit_eq_mask)
qed

lemma ntohs_htons: "ntohs (htons x) = x"
  unfolding ntohs_def htons_def low_byte_16
  by (rule bit_word_eqI) (auto simp: bit_simps)

lemma uint_port: "uint (ntohs (htons (word_of_int k))) = k mod 2 ^ 16"
  by (simp add: ntohs_htons uint_word_of_int)

lemma htonl_INADDR_ANY: "htonl INADDR_ANY = INADDR_ANY"
  by (simp add: htonl_def INADDR_ANY_def)

lemma htonl_INADDR_LOOPBACK: "htonl INADDR_LOOPBACK = 0x100007f"
  by (simp add: htonl_def INADDR_LOOPBACK_def)

lemma inet_addr_loopback: "inet_addr ''127.0.0.1'' = 0x100007f"
  by (simp add: inet_addr_def parse_octet_def is_digit_def htonl_def)

lemma inet_addr_10_0_0_1: "inet_addr ''10.0.0.1'' = 0x0100000a"
  by (simp add: inet_addr_def parse_octet_def is_digit_def htonl_def)

lemma inet_addr_10_0_0_2: "inet_addr ''10.0.0.2'' = 0x0200000a"
  by (simp add: inet_addr_def parse_octet_def is_digit_def htonl_def)

section \<open>The paired connection\<close>

lemma isntMaster_assigns_nothing: "isntMaster this = this"
  by (simp add: isntMaster_def)

text \<open>
  C1. After the notification \<open>isntMaster()\<close> a pair whose master state is confirmed-left
  should be in the state unknown-suspect-right, and one that is confirmed-right in the
  state unknown-suspect-left. The code evaluates the conditional expression and drops
  its value: run on a pair in state \<open>Left\<close> the state is still \<open>Left\<close>, and run on a
  pair in state \<open>Right\<close> it is still \<open>Right\<close>.
\<close>

theorem isntMaster_leaves_confirmed_state:
  "master (isntMaster (sample_pair Left)) = Left \<and>
   master (isntMaster (sample_pair Left)) \<noteq> NotSetR \<and>
   master (isntMaster (sample_pair Right)) = Right \<and>
   master (isntMaster (sample_pair Right)) \<noteq> NotSetL"
  by (simp add: isntMaster_def sample_pair_def)

section \<open>The cursor\<close>

text \<open>
  C3. \<open>isDead()\<close> is true exactly when the cursor handle \<open>cursorId\<close> is 0; the call
  leaves the cursor as it was, and a second call right after the first gives the same
  answer.
\<close>

theorem isDead_iff_cursorId_zero:
  "(isDead c \<longleftrightarrow> cursorId c = 0) \<and>
   fst (call_const isDead c) = isDead c \<and>
   snd (call_const isDead c) = c \<and>
   fst (call_const isDead (snd (call_const isDead c))) = fst (call_const isDead c)"
  by (simp add: isDead_def call_const_def)

text \<open>
  C8. The option \<open>tailable\<close> has the value 2 (bit 1) and \<open>slaveOk\<close> the value 4 (bit 2),
  and \<open>tailable()\<close> is true exactly when the bit of value 2 is set in the cursor's
  options word.
\<close>

theorem tailable_iff_bit_1:
  "Option_CursorTailable = 2 \<and> Option_CursorTailable = push_bit 1 1 \<and>
   Option_SlaveOk = 4 \<and> Option_SlaveOk = push_bit 2 1 \<and>
   (tailable c \<longleftrightarrow> bit (opts c) 1) \<and>
   (tailable c \<longleftrightarrow> opts c AND 2 \<noteq> 0)"
  by (simp add: tailable_def Option_CursorTailable_def Option_SlaveOk_def
      bit_iff_and_push_bit_not_eq_0)

text \<open>
  C4. \<open>nextSafe()\<close> should hand back the document that \<open>next()\<close> produced when that
  document is not a server error, and fail when its field is named \<open>$err\<close>. The code
  makes the check, but has no \<open>return\<close> statement: on the document
  \<open>{name: joe}\<close> it ends without returning a value, so the caller does not get the
  document. On \<open>{$err: ...}\<close> the assertion fails.
\<close>

theorem nextSafe_returns_no_document:
  "fst (nextSafe (next_fixed [Element ''name'' ''joe'']) (sample_cursor 0 0)) = NoValueReturned \<and>
   fst (nextSafe (next_fixed [Element ''name'' ''joe'']) (sample_cursor 0 0))
     \<noteq> Returned [Element ''name'' ''joe''] \<and>
   fst (nextSafe (next_fixed [Element ''$err'' ''unauthorized'']) (sample_cursor 0 0))
     = AssertionFailure"
  by (simp add: nextSafe_def next_fixed_def firstElement_def NUL_def)

section \<open>Socket addresses: loopback, equality and order\<close>

text \<open>
  C6. \<open>isLocalHost()\<close> is true for every local-domain address, whatever else the
  object holds; for an address of any other family (the networked ones) it is true
  exactly when the stored address is the loopback address 127.0.0.1, in network byte
  order.
\<close>

theorem isLocalHost_iff_loopback:
  "(family a = AF_UNIX \<longrightarrow> isLocalHost a) \<and>
   (family a \<noteq> AF_UNIX \<longrightarrow> (isLocalHost a \<longleftrightarrow> s_addr (si a) = htonl INADDR_LOOPBACK))"
  by (simp add: isLocalHost_def htonl_INADDR_LOOPBACK)

theorem isLocalHost_iff_loopback_witness:
  "family (SockAddr_host (\<lambda>h. h) inet_addr ''/tmp/mongo.sock'' 0 zeroed_SockAddr) = AF_UNIX \<and>
   isLocalHost (SockAddr_host (\<lambda>h. h) inet_addr ''/tmp/mongo.sock'' 0 zeroed_SockAddr) \<and>
   family (SockAddr_host (\<lambda>h. h) inet_addr ''127.0.0.1'' 27017 zeroed_SockAddr) \<noteq> AF_UNIX \<and>
   isLocalHost (SockAddr_host (\<lambda>h. h) inet_addr ''127.0.0.1'' 27017 zeroed_SockAddr) \<and>
   family (SockAddr_host (\<lambda>h. h) inet_addr ''10.0.0.1'' 27017 zeroed_SockAddr) \<noteq> AF_UNIX \<and>
   \<not> isLocalHost (SockAddr_host (\<lambda>h. h) inet_addr ''10.0.0.1'' 27017 zeroed_SockAddr)"
  using
    isLocalHost_iff_loopback [of "SockAddr_host (\<lambda>h. h) inet_addr ''/tmp/mongo.sock'' 0 zeroed_SockAddr"]
    isLocalHost_iff_loopback [of "SockAddr_host (\<lambda>h. h) inet_addr ''127.0.0.1'' 27017 zeroed_SockAddr"]
    isLocalHost_iff_loopback [of "SockAddr_host (\<lambda>h. h) inet_addr ''10.0.0.1'' 27017 zeroed_SockAddr"]
  by (simp add: SockAddr_host_def AF_UNIX_def AF_INET_def htonl_INADDR_LOOPBACK
      c_str_samples inet_addr_loopback inet_addr_10_0_0_1)

text \<open>
  C9. The two loopback tests \<open>isLocalHost()\<close> and \<open>localhost()\<close> give the same answer
  on every address: the literal \<open>0x100007f\<close> of the first is what \<open>inet_addr\<close> returns
  for \<open>127.0.0.1\<close> in the second.
\<close>

theorem isLocalHost_eq_localhost: "isLocalHost a = localhost a"
  by (auto simp: isLocalHost_def localhost_def inet_addr_loopback)

subsection \<open>operator==\<close>

text \<open>Equality where the arrays are terminated, and across families.\<close>

lemma SockAddr_eq_terminated:
  assumes "family a = AF_UNIX" and "family b = AF_UNIX"
    and "NUL \<in> set (sun_path (su a))" and "NUL \<in> set (sun_path (su b))"
  shows "SockAddr_eq a b \<longleftrightarrow> c_str (sun_path (su a)) = c_str (sun_path (su b))"
  using assms by (simp add: SockAddr_eq_def strcmp_eq_0_iff sun_path_mem_def c_str_append_NUL)

lemma SockAddr_eq_cross_family:
  assumes "family a = AF_UNIX" and "family b \<noteq> AF_UNIX"
  shows "\<not> SockAddr_eq a b \<and> \<not> SockAddr_eq b a"
  using assms by (auto simp: SockAddr_eq_def)

text \<open>
  C5. Two local-domain addresses should be equal exactly when their paths are equal,
  whatever their other members hold. A path of 108 bytes fills \<open>sun_path\<close> and
  \<open>strncpy\<close> writes no terminator, so \<open>strcmp\<close> reads on into the bytes behind the
  array. Two addresses built from the same 108-byte path, one on zeroed storage and one
  on used storage, hold the same \<open>sun_path\<close> and are of the local-domain family, yet
  \<open>operator==\<close> answers \<open>false\<close> and \<open>operator<\<close> puts the first below the second.
\<close>

theorem SockAddr_eq_same_path_unequal:
  "family (SockAddr_host (\<lambda>h. h) inet_addr (replicate 108 CHR ''a'') 0 zeroed_SockAddr) = AF_UNIX \<and>
   family (SockAddr_host (\<lambda>h. h) inet_addr (replicate 108 CHR ''a'') 0 used_SockAddr) = AF_UNIX \<and>
   sun_path (su (SockAddr_host (\<lambda>h. h) inet_addr (replicate 108 CHR ''a'') 0 zeroed_SockAddr))
     = replicate 108 CHR ''a'' \<and>
   sun_path (su (SockAddr_host (\<lambda>h. h) inet_addr (replicate 108 CHR ''a'') 0 used_SockAddr))
     = replicate 108 CHR ''a'' \<and>
   \<not> SockAddr_eq
       (SockAddr_host (\<lambda>h. h) inet_addr (replicate 108 CHR ''a'') 0 zeroed_SockAddr)
       (SockAddr_host (\<lambda>h. h) inet_addr (replicate 108 CHR ''a'') 0 used_SockAddr) \<and>
   SockAddr_less
       (SockAddr_host (\<lambda>h. h) inet_addr (replicate 108 CHR ''a'') 0 zeroed_SockAddr)
       (SockAddr_host (\<lambda>h. h) inet_addr (replicate 108 CHR ''a'') 0 used_SockAddr)"
  by (simp add: SockAddr_eq_def SockAddr_less_def SockAddr_host_def sun_path_mem_def
      strncpy_replicate_a sizeof_sun_path_def sizeof_sockaddr_un_def zeroed_SockAddr_def
      used_SockAddr_def strcmp_replicate_a le_bytes_110 NUL_def)

text \<open>
  C10. \<open>operator==\<close> is reflexive and symmetric, and \<open>operator!=\<close> is its negation.
\<close>

theorem SockAddr_eq_refl_sym:
  "SockAddr_eq a a \<and> (SockAddr_eq a b \<longrightarrow> SockAddr_eq b a) \<and>
   (SockAddr_ne a b \<longleftrightarrow> \<not> SockAddr_eq a b)"
  by (auto simp: SockAddr_eq_def SockAddr_ne_def strcmp_eq_0_iff split: if_splits)

theorem SockAddr_eq_refl_sym_witness:
  "SockAddr_eq (SockAddr_host (\<lambda>h. h) inet_addr ''10.0.0.1'' 27017 zeroed_SockAddr)
     (SockAddr_host (\<lambda>h. h) inet_addr ''10.0.0.1'' 27017 (SockAddr_host (\<lambda>h. h) inet_addr ''x'' 0 zeroed_SockAddr)) \<and>
   SockAddr_eq (SockAddr_host (\<lambda>h. h) inet_addr ''10.0.0.1'' 27017 (SockAddr_host (\<lambda>h. h) inet_addr ''x'' 0 zeroed_SockAddr))
     (SockAddr_host (\<lambda>h. h) inet_addr ''10.0.0.1'' 27017 zeroed_SockAddr) \<and>
   \<not> SockAddr_ne (SockAddr_host (\<lambda>h. h) inet_addr ''10.0.0.1'' 27017 zeroed_SockAddr)
     (SockAddr_host (\<lambda>h. h) inet_addr ''10.0.0.1'' 27017 (SockAddr_host (\<lambda>h. h) inet_addr ''x'' 0 zeroed_SockAddr))"
proof -
  have e: "SockAddr_eq (SockAddr_host (\<lambda>h. h) inet_addr ''10.0.0.1'' 27017 zeroed_SockAddr)
     (SockAddr_host (\<lambda>h. h) inet_addr ''10.0.0.1'' 27017 (SockAddr_host (\<lambda>h. h) inet_addr ''x'' 0 zeroed_SockAddr))"
    by (simp add: SockAddr_eq_def SockAddr_host_def AF_UNIX_def AF_INET_def)
  show ?thesis
    using e SockAddr_eq_refl_sym [of "SockAddr_host (\<lambda>h. h) inet_addr ''10.0.0.1'' 27017 zeroed_SockAddr"
      "SockAddr_host (\<lambda>h. h) inet_addr ''10.0.0.1'' 27017 (SockAddr_host (\<lambda>h. h) inet_addr ''x'' 0 zeroed_SockAddr)"]
    by blast
qed

subsection \<open>operator<\<close>

text \<open>What the order does satisfy: it is irreflexive, asymmetric and transitive, and any
  two addresses of different families, or two local-domain addresses, are comparable
  or equal.\<close>

lemma SockAddr_less_irrefl: "\<not> SockAddr_less a a"
  by (simp add: SockAddr_less_def strcmp_same)

lemma SockAddr_less_asym:
  assumes l: "SockAddr_less a b"
  shows "\<not> SockAddr_less b a"
proof (cases "family a = family b")
  case False
  with l show ?thesis by (auto simp: SockAddr_less_def split: if_splits)
next
  case True
  show ?thesis
  proof (cases "family a = AF_UNIX")
    case u: True
    with True l show ?thesis
      using strcmp_swap [of "sun_path_mem b" "sun_path_mem a"]
      by (simp add: SockAddr_less_def)
  next
    case n: False
    with True l show ?thesis
      by (auto simp: SockAddr_less_def not_le split: if_splits)
  qed
qed

lemma SockAddr_less_trans:
  assumes ab: "SockAddr_less a b" and bc: "SockAddr_less b c"
  shows "SockAddr_less a c"
proof -
  from ab have fab: "family a \<le> family b" by (simp add: SockAddr_less_def split: if_splits)
  from bc have fbc: "family b \<le> family c" by (simp add: SockAddr_less_def split: if_splits)
  show ?thesis
  proof (cases "family a < family c")
    case True
    then show ?thesis by (simp add: SockAddr_less_def)
  next
    case False
    with fab fbc have e: "family a = family b" "family b = family c" by auto
    show ?thesis
    proof (cases "family a = AF_UNIX")
      case True
      with e ab bc show ?thesis
        using strcmp_trans [of "sun_path_mem a" "sun_path_mem b" "sun_path_mem c"]
        by (simp add: SockAddr_less_def)
    next
      case False
      with e ab bc show ?thesis
        by (auto simp: SockAddr_less_def not_le split: if_splits)
    qed
  qed
qed

lemma SockAddr_less_total_outside_networked:
  assumes "family a \<noteq> family b \<or> family a = AF_UNIX"
  shows "SockAddr_less a b \<or> SockAddr_less b a \<or> SockAddr_eq a b"
proof (cases "family a = family b")
  case False
  then show ?thesis by (auto simp: SockAddr_less_def)
next
  case True
  with assms have u: "family a = AF_UNIX" by simp
  with True show ?thesis
    using strcmp_swap [of "sun_path_mem b" "sun_path_mem a"]
    by (auto simp: SockAddr_less_def SockAddr_eq_def)
qed

text \<open>
  C2. \<open>operator<\<close> should be a strict total order: of two addresses that differ,
  exactly one is below the other. For networked addresses the code answers
  \<open>false\<close> as soon as the left port is not below the right port, and otherwise
  compares the addresses alone. The two distinct addresses 10.0.0.1:27017 and
  10.0.0.2:27017 are unequal by \<open>operator!=\<close>, and neither is below the other; the
  same holds for 10.0.0.1:27018 and 10.0.0.2:27017.
\<close>

theorem SockAddr_less_not_total:
  "SockAddr_ne (SockAddr_host (\<lambda>h. h) inet_addr ''10.0.0.1'' 27017 zeroed_SockAddr)
     (SockAddr_host (\<lambda>h. h) inet_addr ''10.0.0.2'' 27017 zeroed_SockAddr) \<and>
   \<not> SockAddr_less (SockAddr_host (\<lambda>h. h) inet_addr ''10.0.0.1'' 27017 zeroed_SockAddr)
     (SockAddr_host (\<lambda>h. h) inet_addr ''10.0.0.2'' 27017 zeroed_SockAddr) \<and>
   \<not> SockAddr_less (SockAddr_host (\<lambda>h. h) inet_addr ''10.0.0.2'' 27017 zeroed_SockAddr)
     (SockAddr_host (\<lambda>h. h) inet_addr ''10.0.0.1'' 27017 zeroed_SockAddr) \<and>
   SockAddr_ne (SockAddr_host (\<lambda>h. h) inet_addr ''10.0.0.1'' 27018 zeroed_SockAddr)
     (SockAddr_host (\<lambda>h. h) inet_addr ''10.0.0.2'' 27017 zeroed_SockAddr) \<and>
   \<not> SockAddr_less (SockAddr_host (\<lambda>h. h) inet_addr ''10.0.0.1'' 27018 zeroed_SockAddr)
     (SockAddr_host (\<lambda>h. h) inet_addr ''10.0.0.2'' 27017 zeroed_SockAddr) \<and>
   \<not> SockAddr_less (SockAddr_host (\<lambda>h. h) inet_addr ''10.0.0.2'' 27017 zeroed_SockAddr)
     (SockAddr_host (\<lambda>h. h) inet_addr ''10.0.0.1'' 27018 zeroed_SockAddr)"
  by (simp add: SockAddr_ne_def SockAddr_eq_def SockAddr_less_def SockAddr_host_def
      AF_UNIX_def AF_INET_def c_str_samples inet_addr_10_0_0_1 inet_addr_10_0_0_2 htons_def)

subsection \<open>The constructors\<close>

text \<open>
  C7 as stated fails on two inputs. A port outside the 16-bit range is reduced by the
  conversion to the argument type of \<open>htons\<close>: the listener address built from 70000
  has port 4464, and the host address built with the nonzero port 65536 has port 0.
  A path of 109 characters given with port 0 does not fit the 108 bytes of
  \<open>sun_path\<close>: on used storage the path that the address then shows is 108 of its
  characters followed by the two bytes of the gap and the first byte of
  \<open>addressSize\<close>, not that string.
\<close>

theorem SockAddr_construction_counterexample:
  "uint (ntohs (sin_port (si (SockAddr_port 70000 zeroed_SockAddr)))) = 4464 \<and>
   uint (ntohs (sin_port (si (SockAddr_host (\<lambda>h. h) inet_addr ''10.0.0.1'' 65536 zeroed_SockAddr))))
     = 0 \<and>
   sun_path_str (SockAddr_host (\<lambda>h. h) inet_addr (replicate 109 CHR ''a'') 0 used_SockAddr)
     = replicate 108 CHR ''a'' @ ''BBn'' \<and>
   sun_path_str (SockAddr_host (\<lambda>h. h) inet_addr (replicate 109 CHR ''a'') 0 used_SockAddr)
     \<noteq> replicate 109 CHR ''a''"
proof -
  have s: "sun_path_str (SockAddr_host (\<lambda>h. h) inet_addr (replicate 109 CHR ''a'') 0 used_SockAddr)
     = replicate 108 CHR ''a'' @ ''BBn''"
    by (simp add: sun_path_str_def sun_path_mem_def SockAddr_host_def strncpy_replicate_a
        sizeof_sun_path_def sizeof_sockaddr_un_def used_SockAddr_def le_bytes_110
        c_str_replicate_a_append c_str_samples)
  have n: "replicate 108 CHR ''a'' @ ''BBn'' \<noteq> replicate 109 CHR ''a''"
  proof
    assume "replicate 108 CHR ''a'' @ ''BBn'' = replicate 109 CHR ''a''"
    then have "length (replicate 108 CHR ''a'' @ ''BBn'') = length (replicate 109 CHR ''a'')"
      by (rule arg_cong)
    then show False by simp
  qed
  show ?thesis
    by (simp only: s n) (simp add: SockAddr_host_def SockAddr_port_def ntohs_def htons_def)
qed

text \<open>
  C7, amended. The constructor from a port number alone gives a networked address
  with the wildcard address \<open>INADDR_ANY\<close> and the port reduced modulo \<open>2^16\<close>. The
  constructor from a host string and port 0 gives a local-domain address; when the
  string is shorter than \<open>sun_path\<close>, the path of the address is that string. The
  constructor from a host string and a nonzero port gives a networked address whose
  address is what \<open>inet_addr\<close> makes of the text the resolver returns for the host, and
  whose port is the given port modulo \<open>2^16\<close>.
\<close>

theorem SockAddr_construction:
  "family (SockAddr_port sourcePort this) = AF_INET \<and>
   s_addr (si (SockAddr_port sourcePort this)) = INADDR_ANY \<and>
   uint (ntohs (sin_port (si (SockAddr_port sourcePort this)))) = sourcePort mod 2 ^ 16 \<and>
   (port = 0 \<longrightarrow>
      family (SockAddr_host hostbyname inet_addr_fn iporhost port this) = AF_UNIX \<and>
      (length (c_str iporhost) < sizeof_sun_path \<longrightarrow>
         sun_path_str (SockAddr_host hostbyname inet_addr_fn iporhost port this) = c_str iporhost \<and>
         c_str (sun_path (su (SockAddr_host hostbyname inet_addr_fn iporhost port this)))
           = c_str iporhost)) \<and>
   (port \<noteq> 0 \<longrightarrow>
      family (SockAddr_host hostbyname inet_addr_fn iporhost port this) = AF_INET \<and>
      s_addr (si (SockAddr_host hostbyname inet_addr_fn iporhost port this))
        = inet_addr_fn (c_str (hostbyname iporhost)) \<and>
      uint (ntohs (sin_port (si (SockAddr_host hostbyname inet_addr_fn iporhost port this))))
        = port mod 2 ^ 16)"
  by (simp add: SockAddr_port_def SockAddr_host_def htonl_INADDR_ANY uint_port
      sun_path_str_def sun_path_mem_def c_str_strncpy_short c_str_strncpy_short_append)

theorem SockAddr_construction_witness:
  "family (SockAddr_port 27017 zeroed_SockAddr) = AF_INET \<and>
   s_addr (si (SockAddr_port 27017 zeroed_SockAddr)) = INADDR_ANY \<and>
   uint (ntohs (sin_port (si (SockAddr_port 27017 zeroed_SockAddr)))) = 27017 \<and>
   family (SockAddr_host (\<lambda>h. h) inet_addr ''/tmp/mongo.sock'' 0 used_SockAddr) = AF_UNIX \<and>
   length (c_str ''/tmp/mongo.sock'') < sizeof_sun_path \<and>
   sun_path_str (SockAddr_host (\<lambda>h. h) inet_addr ''/tmp/mongo.sock'' 0 used_SockAddr)
     = ''/tmp/mongo.sock'' \<and>
   family (SockAddr_host (\<lambda>h. h) inet_addr ''127.0.0.1'' 27017 zeroed_SockAddr) = AF_INET \<and>
   s_addr (si (SockAddr_host (\<lambda>h. h) inet_addr ''127.0.0.1'' 27017 zeroed_SockAddr)) = 0x100007f \<and>
   uint (ntohs (sin_port (si (SockAddr_host (\<lambda>h. h) inet_addr ''127.0.0.1'' 27017 zeroed_SockAddr))))
     = 27017"
proof -
  have p: "c_str ''/tmp/mongo.sock'' = ''/tmp/mongo.sock''"
    by (rule c_str_samples)
  have q: "c_str ''127.0.0.1'' = ''127.0.0.1''"
    by (rule c_str_samples)
  have l: "length (c_str ''/tmp/mongo.sock'') < sizeof_sun_path"
    by (simp add: p sizeof_sun_path_def)
  show ?thesis
    using l
      SockAddr_construction [where sourcePort = 27017 and this = used_SockAddr and port = 0
        and hostbyname = "\<lambda>h. h" and inet_addr_fn = inet_addr
        and iporhost = "''/tmp/mongo.sock''"]
      SockAddr_construction [where sourcePort = 27017 and this = zeroed_SockAddr
        and port = 27017 and hostbyname = "\<lambda>h. h" and inet_addr_fn = inet_addr
        and iporhost = "''127.0.0.1''"]
    by (simp add: p q inet_addr_loopback SockAddr_port_def htonl_INADDR_ANY uint_port)
qed

end
